theory Spec2Isabelle
  imports Main
begin

unbundle bit_operations_syntax

section \<open>The voice gateway client of disco/voice/client.py\<close>

text \<open>
  The class \<open>VoiceClient\<close> is embedded as a record of its attributes; every method is a
  function from the record (and the method's arguments) to the record after the call.
  A method that can raise returns a pair: the exception (if any) and the session as the
  raise left it, since the Python object outlives the exception.  Calls on the
  collaborating objects (the websocket, the UDP media client, the parent client's gateway
  and event bus, the greenlet scheduler) are appended to a chronological list of effects.
\<close>

subsection \<open>Constants and plain data\<close>

datatype VoiceState =
    DISCONNECTED | AWAITING_ENDPOINT | AUTHENTICATING | CONNECTING | CONNECTED
  | VOICE_DISCONNECTED | VOICE_CONNECTING | VOICE_CONNECTED | NO_ROUTE | ICE_CHECKING
  | RECONNECTING | AUTHENTICATED

text \<open>The opcode names of \<open>disco.voice.packets.VoiceOPCode\<close> that the client uses.\<close>

datatype VoiceOPCode =
    IDENTIFY | SELECT_PROTOCOL | READY | HEARTBEAT | SESSION_DESCRIPTION | SPEAKING
  | HEARTBEAT_ACK | RESUME | HELLO | RESUMED | CLIENT_CONNECT | CLIENT_DISCONNECT

text \<open>\<open>class SpeakingFlags\<close>\<close>

definition SpeakingFlags_NONE :: int where "SpeakingFlags_NONE = 0"
definition SpeakingFlags_VOICE :: int where "SpeakingFlags_VOICE = push_bit 0 1"
definition SpeakingFlags_SOUNDSHARE :: int where "SpeakingFlags_SOUNDSHARE = push_bit 1 1"
definition SpeakingFlags_PRIORITY :: int where "SpeakingFlags_PRIORITY = push_bit 2 1"

text \<open>
  Exceptions.  \<open>VoiceException msg client\<close> keeps the session it was raised for in its
  attribute \<open>voice_client\<close>; the session is referred to by its \<open>server_id\<close>, the key under
  which the owning client registers it.  Messages are the source's format strings,
  unformatted.  \<open>PyException\<close> is the builtin \<open>Exception\<close>; the next three are the errors
  the interpreter raises for \<open>str + None\<close>, an attribute of \<open>None\<close> and \<open>del\<close> of a missing key;
  \<open>GreenletExit\<close> is what \<open>kill()\<close> raises inside the greenlet it kills.
\<close>

datatype error =
    VoiceException string int
  | PyException string
  | TypeError
  | AttributeError
  | KeyError
  | GreenletExit

text \<open>
  The payloads the client sends on the websocket.  The \<open>time.time()\<close> value of a
  heartbeat and the codec list of \<open>SELECT_PROTOCOL\<close>, which is built from tables of
  disco/voice/udp.py, are left out.
\<close>

datatype payload =
    IdentifyData int int string "string option" bool
  | ResumeData int string "string option"
  | HeartbeatData
  | SelectProtocolData "int option" "string option" "string option"
  | ClientConnectData "int option" int int
  | SpeakingData int int "int option"

text \<open>Calls on collaborators, in the order the code makes them.\<close>

datatype effect =
    WsOpen string
  | WsClose "int option"
  | WsSend VoiceOPCode payload
  | Sleep int
  | SleepMs int
  | SpawnHeartbeat int
  | KillHeartbeat
  | UdpConnect "string option" "int option"
  | UdpDisconnect
  | UdpSetAudioCodec string
  | UdpSetupEncryption "int list"
  | GwSendVoiceStateUpdate bool bool bool "int option" "int option"
  | StateEmit VoiceState VoiceState
  | EmitVoiceSpeaking int bool bool bool
  | EmitVoiceDisconnect
  | ProcKill

text \<open>
  The greenlet stored in \<open>_heartbeat_task\<close>: the interval it was spawned with and whether
  its loop is still running.  \<open>greenlet_alive\<close> is the truth value of the attribute in
  \<open>if self._heartbeat_task:\<close>, which is false for \<open>None\<close> and for a greenlet that has
  finished.
\<close>

datatype greenlet = Greenlet int bool

fun greenlet_alive :: "greenlet option \<Rightarrow> bool" where
  "greenlet_alive None = False"
| "greenlet_alive (Some (Greenlet interval running)) = running"

subsection \<open>The session\<close>

text \<open>
  Attributes of \<open>VoiceClient.__init__\<close>, under their names (without the leading
  underscore; \<open>_heartbeat_task\<close> is \<open>heartbeat_greenlet\<close>, as the method has the name).
  \<open>ws\<close> is \<open>None\<close> or a websocket, of which the code reads only
  \<open>ws.sock and ws.sock.connected\<close>: that boolean is the content of \<open>Some\<close>.  \<open>udp\<close> is
  \<open>None\<close> or a media client with its \<open>connected\<close> flag.  \<open>media_proc\<close> says whether
  \<open>self.media.now_playing.source.proc\<close> exists.  \<open>voice_clients\<close> is the key set of the
  owning client's registry \<open>client.state.voice_clients\<close>, \<open>me_id\<close> is
  \<open>client.state.me.id\<close>.  The timestamps \<open>_last_heartbeat\<close> and \<open>latency\<close> are clock
  readings and are not part of the record.
\<close>

record VoiceClient =
  server_id :: int
  channel_id :: "int option"
  is_dm :: bool
  max_reconnects :: int
  video_enabled :: bool
  media_proc :: bool
  state :: VoiceState
  token :: "string option"
  endpoint :: "string option"
  ssrc :: "int option"
  ip :: "string option"
  port :: "int option"
  mode :: "string option"
  udp :: "bool option"
  audio_codec :: "string option"
  video_codec :: "string option"
  transport_id :: "string option"
  ws :: "bool option"
  session_id :: string
  reconnects :: int
  heartbeat_greenlet :: "greenlet option"
  heartbeat_acknowledged :: bool
  identified :: bool
  audio_ssrcs :: "(int \<times> int) list"
  me_id :: int
  voice_clients :: "int set"
  effects :: "effect list"

definition do_effect :: "effect \<Rightarrow> VoiceClient \<Rightarrow> VoiceClient" where
  "do_effect e s = s\<lparr>effects := effects s @ [e]\<rparr>"

text \<open>\<open>VoiceClient.__init__(client, server_id, is_dm, encoder, max_reconnects)\<close>\<close>

definition init :: "int set \<Rightarrow> string \<Rightarrow> int \<Rightarrow> int \<Rightarrow> bool \<Rightarrow> int \<Rightarrow> VoiceClient" where
  "init registry gw_session_id me sid dm maxr =
     \<lparr>server_id = sid, channel_id = None, is_dm = dm, max_reconnects = maxr,
      video_enabled = False, media_proc = False, state = DISCONNECTED, token = None,
      endpoint = None, ssrc = None, ip = None, port = None, mode = None, udp = None,
      audio_codec = None, video_codec = None, transport_id = None, ws = None,
      session_id = gw_session_id, reconnects = 0, heartbeat_greenlet = None,
      heartbeat_acknowledged = True, identified = False, audio_ssrcs = [], me_id = me,
      voice_clients = insert sid registry, effects = []\<rparr>"

subsection \<open>Derived synchronization sources\<close>

text \<open>
  The four properties.  \<open>ssrc_audio\<close> returns the attribute as it is (possibly \<open>None\<close>);
  the other three add to it, which raises \<open>TypeError\<close> while \<open>ssrc\<close> is \<open>None\<close>.
\<close>

definition ssrc_audio :: "VoiceClient \<Rightarrow> int option" where
  "ssrc_audio s = ssrc s"

definition ssrc_video :: "VoiceClient \<Rightarrow> error + int" where
  "ssrc_video s = (case ssrc s of None \<Rightarrow> Inl TypeError | Some b \<Rightarrow> Inr (b + 1))"

definition ssrc_rtx :: "VoiceClient \<Rightarrow> error + int" where
  "ssrc_rtx s = (case ssrc s of None \<Rightarrow> Inl TypeError | Some b \<Rightarrow> Inr (b + 2))"

definition ssrc_rtcp :: "VoiceClient \<Rightarrow> error + int" where
  "ssrc_rtcp s = (case ssrc s of None \<Rightarrow> Inl TypeError | Some b \<Rightarrow> Inr (b + 3))"

subsection \<open>State changes, sending, the media client\<close>

text \<open>\<open>set_state\<close>: store the state and publish \<open>(new, previous)\<close> on the state emitter.\<close>

definition set_state :: "VoiceClient \<Rightarrow> VoiceState \<Rightarrow> VoiceClient" where
  "set_state s st = do_effect (StateEmit st (state s)) (s\<lparr>state := st\<rparr>)"

text \<open>\<open>send\<close>: the frame goes out only on a connected websocket; otherwise it is dropped.\<close>

definition send :: "VoiceClient \<Rightarrow> VoiceOPCode \<Rightarrow> payload \<Rightarrow> VoiceClient" where
  "send s op d = (if ws s = Some True then do_effect (WsSend op d) s else s)"

text \<open>\<open>set_voice_state(channel_id, mute, deaf, video)\<close>: a gateway \<open>VOICE_STATE_UPDATE\<close>.\<close>

definition set_voice_state ::
  "VoiceClient \<Rightarrow> int option \<Rightarrow> bool \<Rightarrow> bool \<Rightarrow> bool \<Rightarrow> VoiceClient" where
  "set_voice_state s ch mute deaf video =
     do_effect (GwSendVoiceStateUpdate mute deaf video
                  (if is_dm s then None else Some (server_id s)) ch) s"

text \<open>
  Modelled from the spec: \<open>UDPVoiceClient.disconnect\<close> of disco/voice/udp.py, the media
  transport's \<open>disconnect()\<close> of the collaborator contracts: the call is recorded and the
  media transport is no longer connected.
\<close>

definition udp_disconnect :: "VoiceClient \<Rightarrow> VoiceClient" where
  "udp_disconnect s = do_effect UdpDisconnect (s\<lparr>udp := Some False\<rparr>)"

text \<open>\<open>set_speaking(voice, soundshare, priority, delay)\<close>\<close>

definition set_speaking :: "VoiceClient \<Rightarrow> bool \<Rightarrow> bool \<Rightarrow> bool \<Rightarrow> int \<Rightarrow> VoiceClient" where
  "set_speaking s voice soundshare priority delay =
     (let v0 = SpeakingFlags_NONE;
          v1 = (if voice then v0 OR SpeakingFlags_VOICE else v0);
          v2 = (if soundshare then v1 OR SpeakingFlags_SOUNDSHARE else v1);
          v3 = (if priority then v2 OR SpeakingFlags_PRIORITY else v2)
      in send s SPEAKING (SpeakingData v3 delay (ssrc s)))"

subsection \<open>Endpoint, token and opening the transport\<close>

text \<open>
  \<open>connect_and_run\<close>: builds the URL from \<open>self.endpoint\<close> (a \<open>TypeError\<close> while that is
  \<open>None\<close>, before any websocket exists), stores the new websocket, which is not yet
  connected, and runs it.  What the running websocket then delivers (open, messages,
  close) are the later calls of \<open>on_open\<close>, \<open>on_message\<close> and \<open>on_close\<close>.
\<close>

definition VOICE_GATEWAY_VERSION :: string where
  "VOICE_GATEWAY_VERSION = ''4''"

definition connect_and_run :: "VoiceClient \<Rightarrow> error option \<times> VoiceClient" where
  "connect_and_run s =
     (case endpoint s of
        None \<Rightarrow> (Some TypeError, s)
      | Some e \<Rightarrow>
          (None, do_effect (WsOpen (''wss://'' @ e @ ''/?v='' @ VOICE_GATEWAY_VERSION))
                   (s\<lparr>ws := Some False\<rparr>)))"

text \<open>\<open>set_endpoint\<close>: \<open>endpoint.split(':', 1)[0]\<close> is the text before the first colon.\<close>

definition set_endpoint :: "VoiceClient \<Rightarrow> string \<Rightarrow> VoiceClient" where
  "set_endpoint s ep =
     (let e = takeWhile (\<lambda>c. c \<noteq> CHR '':'') ep in
      if endpoint s = Some e then s
      else
        let s1 = s\<lparr>endpoint := Some e\<rparr>;
            s2 = (if ws s1 = Some True then (do_effect (WsClose None) s1)\<lparr>ws := None\<rparr> else s1)
        in s2\<lparr>identified := False\<rparr>)"

definition set_token :: "VoiceClient \<Rightarrow> string \<Rightarrow> error option \<times> VoiceClient" where
  "set_token s tok =
     (if token s = Some tok then (None, s)
      else
        let s1 = s\<lparr>token := Some tok\<rparr> in
        if \<not> identified s1 then connect_and_run s1 else (None, s1))"

subsection \<open>Closure of the transport\<close>

text \<open>
  \<open>on_close(code, reason)\<close>, called by any greenlet but the heartbeat task's own, as
  the websocket calls it: \<open>kill()\<close> then ends the heartbeat task and returns.  (The call
  the heartbeat task makes itself is \<open>on_close_in_heartbeat\<close> below.)
  \<open>code and (4000 < code <= 4016 or code == 1001)\<close> is false for \<open>None\<close> and for \<open>0\<close>.
\<close>

definition hard_close :: "int option \<Rightarrow> bool" where
  "hard_close code =
     (case code of
        None \<Rightarrow> False
      | Some c \<Rightarrow> c \<noteq> 0 \<and> ((4000 < c \<and> c \<le> 4016) \<or> c = 1001))"

definition on_close ::
  "VoiceClient \<Rightarrow> int option \<Rightarrow> string option \<Rightarrow> error option \<times> VoiceClient" where
  "on_close s code reason =
     (let s1 = (if greenlet_alive (heartbeat_greenlet s)
                then (do_effect KillHeartbeat s)\<lparr>heartbeat_greenlet := None\<rparr> else s);
          s2 = s1\<lparr>ws := None\<rparr>
      in
      if state s2 = DISCONNECTED then (None, s2)
      else
        let s3 = set_state s2 RECONNECTING;
            s4 = s3\<lparr>reconnects := reconnects s3 + 1\<rparr>
        in
        if max_reconnects s4 \<noteq> 0 \<and> reconnects s4 > max_reconnects s4
        then (Some (VoiceException ''Failed to reconnect after {} attempts, giving up''
                      (server_id s4)), s4)
        else
          let (s5, wait_time) =
                (if hard_close code
                 then
                   (let s41 = s4\<lparr>identified := False\<rparr>;
                        s42 = (if udp s41 = Some True then udp_disconnect s41 else s41)
                    in (s42, 5))
                 else (s4, 1));
              s6 = do_effect (Sleep wait_time) s5
          in connect_and_run s6)"

subsection \<open>Caller-initiated teardown\<close>

text \<open>
  \<open>disconnect()\<close>.  The two \<open>try\<close> blocks swallow what their bodies raise; \<open>del\<close> of the
  registry entry is outside them and raises \<open>KeyError\<close> when the key is missing.
\<close>

definition disconnect :: "VoiceClient \<Rightarrow> error option \<times> VoiceClient" where
  "disconnect s =
     (if state s = DISCONNECTED then (None, s)
      else
        let s1 = set_state s DISCONNECTED;
            s2 = (if ws s1 = Some True then (do_effect (WsClose None) s1)\<lparr>ws := None\<rparr> else s1);
            s3 = set_voice_state s2 None False False False;
            s4 = (if udp s3 \<noteq> None then udp_disconnect s3 else s3);
            s5 = (if media_proc s4 then do_effect ProcKill s4 else s4)
        in
        if server_id s5 \<in> voice_clients s5
        then (None, do_effect EmitVoiceDisconnect
                      (s5\<lparr>voice_clients := voice_clients s5 - {server_id s5}\<rparr>))
        else (Some KeyError, s5))"

subsection \<open>Handshake\<close>

definition on_open :: "VoiceClient \<Rightarrow> VoiceClient" where
  "on_open s =
     (if identified s
      then send s RESUME (ResumeData (server_id s) (session_id s) (token s))
      else send s IDENTIFY
             (IdentifyData (server_id s) (me_id s) (session_id s) (token s) (video_enabled s)))"

definition on_voice_hello :: "VoiceClient \<Rightarrow> int \<Rightarrow> VoiceClient" where
  "on_voice_hello s heartbeat_interval =
     (let s1 = (do_effect (SpawnHeartbeat heartbeat_interval) s)
                 \<lparr>heartbeat_greenlet := Some (Greenlet heartbeat_interval True)\<rparr>
      in set_state s1 AUTHENTICATED)"

text \<open>
  The class attribute \<open>SUPPORTED_MODES\<close> is a Python set.  The \<open>for\<close> loop of
  \<open>on_voice_ready\<close> visits its members in the set's iteration order, which the source does
  not fix: the order is the argument \<open>it\<close> of \<open>select_mode\<close> and \<open>on_voice_ready\<close>, a list
  of the members.  \<open>select_mode\<close> is the loop with its \<open>else\<close> branch (\<open>None\<close>: no
  \<open>break\<close> happened).
\<close>

definition SUPPORTED_MODES :: "string set" where
  "SUPPORTED_MODES =
     {''xsalsa20_poly1305_lite'', ''xsalsa20_poly1305_suffix'', ''xsalsa20_poly1305''}"

definition iteration_order :: "string list \<Rightarrow> bool" where
  "iteration_order it = (distinct it \<and> set it = SUPPORTED_MODES)"

fun select_mode :: "string list \<Rightarrow> string list \<Rightarrow> string option" where
  "select_mode [] modes = None"
| "select_mode (m # it) modes = (if m \<in> set modes then Some m else select_mode it modes)"

record ready_data =
  d_ssrc :: int
  d_ip :: string
  d_port :: int
  d_modes :: "string list"

text \<open>
  Modelled from the spec: \<open>UDPVoiceClient.connect\<close> of disco/voice/udp.py, the media
  transport's \<open>discover(ip, port) -> (externalIp, externalPort) | failure\<close>: the pair it
  returns is an input (\<open>(None, None)\<close> on failure), and the media client is connected
  afterwards exactly when it returned an address.
\<close>

definition udp_connect :: "VoiceClient \<Rightarrow> string option \<times> int option \<Rightarrow> VoiceClient" where
  "udp_connect s disc =
     do_effect (UdpConnect (ip s) (port s)) (s\<lparr>udp := Some (fst disc \<noteq> None)\<rparr>)"

definition on_voice_ready ::
  "string list \<Rightarrow> VoiceClient \<Rightarrow> ready_data \<Rightarrow> string option \<times> int option
     \<Rightarrow> error option \<times> VoiceClient" where
  "on_voice_ready it s d disc =
     (let s1 = set_state s CONNECTING;
          s2 = s1\<lparr>ssrc := Some (d_ssrc d), ip := Some (d_ip d), port := Some (d_port d),
                  identified := True\<rparr>
      in
      case select_mode it (d_modes d) of
        None \<Rightarrow> (Some (PyException ''Failed to find a supported voice mode''), s2)
      | Some m \<Rightarrow>
          let s3 = s2\<lparr>mode := Some m\<rparr>;
              s4 = udp_connect s3 disc
          in
          if fst disc = None \<or> fst disc = Some []
          then disconnect s4
          else
            let s5 = send s4 SELECT_PROTOCOL (SelectProtocolData (snd disc) (fst disc) (mode s4));
                s6 = send s5 CLIENT_CONNECT (ClientConnectData (ssrc s5) 0 0)
            in (None, s6))"

definition on_voice_resumed :: "VoiceClient \<Rightarrow> VoiceClient" where
  "on_voice_resumed s = set_state s CONNECTED"

record sdp_data =
  sdp_mode :: string
  sdp_audio_codec :: string
  sdp_video_codec :: string
  sdp_media_session_id :: string
  sdp_secret_key :: "int list"

definition on_voice_sdp :: "VoiceClient \<Rightarrow> sdp_data \<Rightarrow> error option \<times> VoiceClient" where
  "on_voice_sdp s sdp =
     (let s1 = s\<lparr>mode := Some (sdp_mode sdp), audio_codec := Some (sdp_audio_codec sdp),
                 video_codec := Some (sdp_video_codec sdp),
                 transport_id := Some (sdp_media_session_id sdp)\<rparr>
      in
      case udp s1 of
        None \<Rightarrow> (Some AttributeError, s1)
      | Some c \<Rightarrow>
          let s2 = do_effect (UdpSetAudioCodec (sdp_audio_codec sdp)) s1;
              s3 = do_effect (UdpSetupEncryption (sdp_secret_key sdp)) s2
          in (None, set_state s3 CONNECTED))"

subsection \<open>The SSRC registry\<close>

text \<open>
  \<open>audio_ssrcs\<close> is a dict: an association list in insertion order.  \<open>dict_setitem\<close> is
  \<open>d[k] = v\<close> (an existing key keeps its place), \<open>dict_delitem\<close> is \<open>del d[k]\<close> for a key
  that is present.  \<open>first_ssrc_of\<close> is the loop of \<open>on_voice_client_disconnect\<close> over
  \<open>keys()\<close> up to its \<open>break\<close>.
\<close>

fun dict_setitem :: "(int \<times> int) list \<Rightarrow> int \<Rightarrow> int \<Rightarrow> (int \<times> int) list" where
  "dict_setitem [] k v = [(k, v)]"
| "dict_setitem (p # ps) k v = (if fst p = k then (k, v) # ps else p # dict_setitem ps k v)"

definition dict_delitem :: "(int \<times> int) list \<Rightarrow> int \<Rightarrow> (int \<times> int) list" where
  "dict_delitem d k = filter (\<lambda>p. fst p \<noteq> k) d"

fun first_ssrc_of :: "(int \<times> int) list \<Rightarrow> int list \<Rightarrow> int \<Rightarrow> int option" where
  "first_ssrc_of d [] user = None"
| "first_ssrc_of d (k # ks) user =
     (if map_of d k = Some user then Some k else first_ssrc_of d ks user)"

definition on_voice_client_connect :: "VoiceClient \<Rightarrow> int \<Rightarrow> int \<Rightarrow> VoiceClient" where
  "on_voice_client_connect s user audio_ssrc =
     s\<lparr>audio_ssrcs := dict_setitem (audio_ssrcs s) audio_ssrc user\<rparr>"

definition on_voice_client_disconnect :: "VoiceClient \<Rightarrow> int \<Rightarrow> VoiceClient" where
  "on_voice_client_disconnect s user =
     (case first_ssrc_of (audio_ssrcs s) (map fst (audio_ssrcs s)) user of
        None \<Rightarrow> s
      | Some k \<Rightarrow> s\<lparr>audio_ssrcs := dict_delitem (audio_ssrcs s) k\<rparr>)"

definition on_voice_speaking :: "VoiceClient \<Rightarrow> int \<Rightarrow> int \<Rightarrow> int \<Rightarrow> VoiceClient" where
  "on_voice_speaking s user speaking_ssrc speaking =
     (let s1 = s\<lparr>audio_ssrcs := dict_setitem (audio_ssrcs s) speaking_ssrc user\<rparr>
      in do_effect (EmitVoiceSpeaking user
                      (speaking AND SpeakingFlags_VOICE \<noteq> 0)
                      (speaking AND SpeakingFlags_SOUNDSHARE \<noteq> 0)
                      (speaking AND SpeakingFlags_PRIORITY \<noteq> 0)) s1)"

subsection \<open>Heartbeats\<close>

definition handle_heartbeat :: "VoiceClient \<Rightarrow> VoiceClient" where
  "handle_heartbeat s = send s HEARTBEAT HeartbeatData"

definition handle_heartbeat_acknowledge :: "VoiceClient \<Rightarrow> VoiceClient" where
  "handle_heartbeat_acknowledge s = s\<lparr>heartbeat_acknowledged := True\<rparr>"

text \<open>
  The call \<open>self.on_close(0, 'HEARTBEAT failure')\<close> that the heartbeat task makes.  The
  task runs as the greenlet stored in \<open>_heartbeat_task\<close> (\<open>on_voice_hello\<close> spawns it
  so), and \<open>on_close\<close> begins by killing that greenlet when it is alive: the greenlet
  killed is then the caller, \<open>kill()\<close> raises \<open>GreenletExit\<close> in it, and nothing after
  that line of \<open>on_close\<close> runs.  With no live greenlet stored, the call is \<open>on_close\<close>.
\<close>

definition on_close_in_heartbeat ::
  "VoiceClient \<Rightarrow> int option \<Rightarrow> string option \<Rightarrow> error option \<times> VoiceClient" where
  "on_close_in_heartbeat s code reason =
     (if greenlet_alive (heartbeat_greenlet s)
      then (Some GreenletExit, do_effect KillHeartbeat s)
      else on_close s code reason)"

text \<open>
  \<open>heartbeat_task(interval)\<close>.  \<open>heartbeat_body\<close> is one pass through the body of
  \<open>while True\<close>: it either ends the task (with what its call of \<open>on_close\<close> raised, or
  the \<open>AttributeError\<close> of \<open>self.ws.close\<close> on \<open>None\<close>), or reaches \<open>gevent.sleep\<close>.
  While the task sleeps the rest of the program runs; \<open>heartbeat_task\<close> takes what it
  does to the session during each sleep as a list of functions and is the loop over
  them.  The result \<open>Sleeping\<close> is the task still in its loop when that list is used up.
\<close>

datatype task_result = Sleeping VoiceClient | Returned "error option" VoiceClient

definition heartbeat_body :: "int \<Rightarrow> VoiceClient \<Rightarrow> task_result" where
  "heartbeat_body interval s =
     (if \<not> heartbeat_acknowledged s
      then
        let s1 = s\<lparr>heartbeat_acknowledged := True\<rparr> in
        (case ws s1 of
           None \<Rightarrow> Returned (Some AttributeError) s1
         | Some c \<Rightarrow>
             let s2 = do_effect (WsClose (Some 4000)) s1;
                 (r, s3) = on_close_in_heartbeat s2 (Some 0) (Some ''HEARTBEAT failure'')
             in Returned r s3)
      else
        let s1 = send s HEARTBEAT HeartbeatData;
            s2 = s1\<lparr>heartbeat_acknowledged := False\<rparr>
        in Sleeping (do_effect (SleepMs interval) s2))"

fun heartbeat_task ::
  "int \<Rightarrow> (VoiceClient \<Rightarrow> VoiceClient) list \<Rightarrow> VoiceClient \<Rightarrow> task_result" where
  "heartbeat_task interval [] s = heartbeat_body interval s"
| "heartbeat_task interval (during_sleep # rest) s =
     (case heartbeat_body interval s of
        Returned r s' \<Rightarrow> Returned r s'
      | Sleeping s' \<Rightarrow> heartbeat_task interval rest (during_sleep s'))"

subsection \<open>Connecting\<close>

text \<open>
  \<open>connect(channel_id, timeout, **kwargs)\<close> blocks in \<open>state_emitter.once\<close> until the state
  \<open>CONNECTED\<close> is published or the timeout expires, and other handlers run meanwhile.
  \<open>connect\<close> is the method up to that wait (it raised, returned \<open>self\<close>, or waits);
  \<open>connect_wait\<close> is the rest, given whether the wait succeeded.  \<open>not channel_id\<close> holds
  for \<open>None\<close> and for \<open>0\<close>.
\<close>

datatype connect_progress = Raised error | ReturnedSelf | Waiting

definition connect ::
  "VoiceClient \<Rightarrow> int option \<Rightarrow> bool \<Rightarrow> bool \<Rightarrow> bool \<Rightarrow> connect_progress \<times> VoiceClient" where
  "connect s channel mute deaf video =
     (let ch = (if is_dm s then Some (server_id s) else channel) in
      if ch = None \<or> ch = Some 0
      then (Raised (VoiceException ''[{}] cannot connect to an empty channel id'' (server_id s)), s)
      else if channel_id s = ch \<and> state s = CONNECTED then (ReturnedSelf, s)
      else
        let s1 = (if channel_id s = ch then s
                  else if state s = CONNECTED then s
                  else set_state s AWAITING_ENDPOINT)
        in (Waiting, set_voice_state s1 ch mute deaf video))"

definition connect_wait :: "VoiceClient \<Rightarrow> bool \<Rightarrow> error option \<times> VoiceClient" where
  "connect_wait s connected =
     (if \<not> connected
      then
        (case disconnect s of
           (Some e, s') \<Rightarrow> (Some e, s')
         | (None, s') \<Rightarrow> (Some (VoiceException ''Failed to connect to voice'' (server_id s')), s'))
      else (None, s))"

subsection \<open>Dispatch of messages and the calls a session receives\<close>

datatype packet =
    ReadyPacket ready_data "string option \<times> int option"
  | HeartbeatPacket
  | SessionDescriptionPacket sdp_data
  | SpeakingPacket int int int
  | HeartbeatAckPacket
  | HelloPacket int
  | ResumedPacket
  | ClientConnectPacket int int
  | ClientDisconnectPacket int
  | UnhandledPacket

text \<open>
  \<open>on_message\<close>: the decoded packet goes to the handler bound to its opcode in
  \<open>__init__\<close>; whatever the handler raises is caught and logged.  A \<open>READY\<close> packet comes
  with the outcome of the IP discovery its handler starts.
\<close>

fun on_message :: "string list \<Rightarrow> VoiceClient \<Rightarrow> packet \<Rightarrow> VoiceClient" where
  "on_message it s (ReadyPacket d disc) = snd (on_voice_ready it s d disc)"
| "on_message it s HeartbeatPacket = handle_heartbeat s"
| "on_message it s (SessionDescriptionPacket sdp) = snd (on_voice_sdp s sdp)"
| "on_message it s (SpeakingPacket user sp_ssrc speaking) = on_voice_speaking s user sp_ssrc speaking"
| "on_message it s HeartbeatAckPacket = handle_heartbeat_acknowledge s"
| "on_message it s (HelloPacket interval) = on_voice_hello s interval"
| "on_message it s ResumedPacket = on_voice_resumed s"
| "on_message it s (ClientConnectPacket user a_ssrc) = on_voice_client_connect s user a_ssrc"
| "on_message it s (ClientDisconnectPacket user) = on_voice_client_disconnect s user"
| "on_message it s UnhandledPacket = s"

text \<open>\<open>on_error\<close> only logs.\<close>

definition on_error :: "VoiceClient \<Rightarrow> VoiceClient" where
  "on_error s = s"

text \<open>
  Everything that can happen to a session after \<open>__init__\<close>: the public calls, the
  callbacks of the websocket, and the heartbeat greenlet being scheduled for one pass of
  its loop.  The websocket reports \<open>on_open\<close> once its socket is connected.  The
  heartbeat task scheduled is the greenlet stored in \<open>_heartbeat_task\<close>; one that has ended
  stays stored as a finished greenlet, and a finished or killed one is not scheduled again.
\<close>

datatype event =
    SetEndpoint string
  | SetToken string
  | Connect "int option" bool bool bool
  | ConnectWait bool
  | Disconnect
  | SetSpeaking bool bool bool int
  | TransportOpen
  | TransportMessage packet
  | TransportError
  | TransportClose "int option" "string option"
  | HeartbeatWake

fun step :: "string list \<Rightarrow> VoiceClient \<Rightarrow> event \<Rightarrow> VoiceClient" where
  "step it s (SetEndpoint ep) = set_endpoint s ep"
| "step it s (SetToken tok) = snd (set_token s tok)"
| "step it s (Connect ch mute deaf video) = snd (connect s ch mute deaf video)"
| "step it s (ConnectWait connected) = snd (connect_wait s connected)"
| "step it s Disconnect = snd (disconnect s)"
| "step it s (SetSpeaking voice soundshare priority delay) =
     set_speaking s voice soundshare priority delay"
| "step it s TransportOpen = on_open (s\<lparr>ws := map_option (\<lambda>c. True) (ws s)\<rparr>)"
| "step it s (TransportMessage pkt) = on_message it s pkt"
| "step it s TransportError = on_error s"
| "step it s (TransportClose code reason) = snd (on_close s code reason)"
| "step it s HeartbeatWake =
     (case heartbeat_greenlet s of
        Some (Greenlet interval True) \<Rightarrow>
          (case heartbeat_body interval s of
             Sleeping s' \<Rightarrow> s'
           | Returned r s' \<Rightarrow>
               s'\<lparr>heartbeat_greenlet := map_option (\<lambda>g. Greenlet interval False) (heartbeat_greenlet s')\<rparr>)
      | _ \<Rightarrow> s)"

definition run :: "string list \<Rightarrow> VoiceClient \<Rightarrow> event list \<Rightarrow> VoiceClient" where
  "run it s evs = foldl (step it) s evs"

subsection \<open>Reading the effect list\<close>

text \<open>
  What a call added to the effect list, the seconds slept in \<open>on_close\<close> among some
  effects, and the URLs of the websockets opened among them.
\<close>

definition new_effects :: "VoiceClient \<Rightarrow> VoiceClient \<Rightarrow> effect list" where
  "new_effects s s' = drop (length (effects s)) (effects s')"

fun backoffs :: "effect list \<Rightarrow> int list" where
  "backoffs [] = []"
| "backoffs (Sleep w # es) = w # backoffs es"
| "backoffs (e # es) = backoffs es"

fun opens :: "effect list \<Rightarrow> string list" where
  "opens [] = []"
| "opens (WsOpen url # es) = url # opens es"
| "opens (e # es) = opens es"

text \<open>
  The test of \<open>on_close\<close> after it has counted the closure, in terms of the session
  before the call.
\<close>

definition budget_exceeded :: "VoiceClient \<Rightarrow> bool" where
  "budget_exceeded s = (max_reconnects s \<noteq> 0 \<and> reconnects s + 1 > max_reconnects s)"

text \<open>A session as \<open>__init__\<close> leaves it, for the examples.\<close>

definition new_session :: VoiceClient where
  "new_session = init {} ''gateway-session'' 7 42 False 5"

text \<open>
  A session brought to \<open>CONNECTED\<close> by the calls of a successful handshake, with one
  iteration order of \<open>SUPPORTED_MODES\<close>.
\<close>

definition order0 :: "string list" where
  "order0 = [''xsalsa20_poly1305_lite'', ''xsalsa20_poly1305_suffix'', ''xsalsa20_poly1305'']"

definition ready0 :: ready_data where
  "ready0 = \<lparr>d_ssrc = 100, d_ip = ''203.0.113.5'', d_port = 50000,
              d_modes = [''xsalsa20_poly1305'']\<rparr>"

definition sdp0 :: sdp_data where
  "sdp0 = \<lparr>sdp_mode = ''xsalsa20_poly1305'', sdp_audio_codec = ''opus'',
            sdp_video_codec = ''VP8'', sdp_media_session_id = ''media'',
            sdp_secret_key = [1, 2, 3]\<rparr>"

definition handshake :: "event list" where
  "handshake =
     [Connect (Some 9) False False False,
      SetEndpoint ''voice.example:443'',
      SetToken ''secret'',
      TransportOpen,
      TransportMessage (HelloPacket 41250),
      TransportMessage (ReadyPacket ready0 (Some ''198.51.100.7'', Some 40000)),
      TransportMessage (SessionDescriptionPacket sdp0)]"

definition connected_session :: VoiceClient where
  "connected_session = run order0 new_session handshake"

text \<open>What a pass of the heartbeat task, or the task, ended with.\<close>

fun task_session :: "task_result \<Rightarrow> VoiceClient" where
  "task_session (Sleeping s) = s"
| "task_session (Returned r s) = s"

fun task_error :: "task_result \<Rightarrow> error option" where
  "task_error (Sleeping s) = None"
| "task_error (Returned r s) = r"

fun task_returned :: "task_result \<Rightarrow> bool" where
  "task_returned (Sleeping s) = False"
| "task_returned (Returned r s) = True"

text \<open>
  The connected session after its heartbeat task sent a heartbeat that is not yet
  acknowledged; the same after a new endpoint then arrived, which closed and dropped the
  websocket; a session that got \<open>HELLO\<close> but not yet \<open>READY\<close> and sent a heartbeat that
  is not yet acknowledged; and a session with \<open>max_reconnects = 1\<close> that was connected,
  lost its transport once, resumed, and then sent a heartbeat that is not yet
  acknowledged.
\<close>

definition unacked_session :: VoiceClient where
  "unacked_session = run order0 new_session (handshake @ [HeartbeatWake])"

definition detached_session :: VoiceClient where
  "detached_session =
     run order0 new_session (handshake @ [HeartbeatWake, SetEndpoint ''other.example:443''])"


definition last_chance_session :: VoiceClient where
  "last_chance_session =
     run order0 (init {} ''gateway-session'' 7 42 False 1)
       (handshake @
        [TransportClose (Some 1006) None, TransportOpen, TransportMessage (HelloPacket 41250),
         TransportMessage ResumedPacket, HeartbeatWake])"

text \<open>
  The calls by which the gateway's signalling hands the endpoint and the token to a
  session.
\<close>

fun signalling :: "event \<Rightarrow> bool" where
  "signalling (SetEndpoint ep) = True"
| "signalling (SetToken tok) = True"
| "signalling ev = False"

text \<open>
  A session whose first \<open>connect\<close> timed out (which disconnected it) and on which
  \<open>connect\<close> was called again and is waiting.
\<close>

definition retried_session :: VoiceClient where
  "retried_session =
     run order0 new_session
       [Connect (Some 9) False False False, ConnectWait False,
        Connect (Some 9) False False False]"

text \<open>
  \<open>READY\<close> payloads whose advertised modes hold two of the supported modes, and none
  of them.
\<close>

definition ready_two_modes :: ready_data where
  "ready_two_modes = ready0\<lparr>d_modes := [''xsalsa20_poly1305'', ''xsalsa20_poly1305_lite'']\<rparr>"

definition ready_foreign_modes :: ready_data where
  "ready_foreign_modes = ready0\<lparr>d_modes := [''aead_aes256_gcm'', ''plain'']\<rparr>"





section \<open>Verified properties\<close>

subsection \<open>Derived synchronization sources\<close>

text \<open>
  C8.  On a session whose base \<open>ssrc\<close> is set, the four derived sources are the base plus
  0, 1, 2 and 3: audio, video, retransmit, control (RTCP).  They read no other attribute.
\<close>

theorem derived_ssrcs:
  "ssrc s = Some b \<Longrightarrow>
     ssrc_audio s = Some (b + 0) \<and> ssrc_video s = Inr (b + 1) \<and>
     ssrc_rtx s = Inr (b + 2) \<and> ssrc_rtcp s = Inr (b + 3)"
  by (simp add: ssrc_audio_def ssrc_video_def ssrc_rtx_def ssrc_rtcp_def)

theorem derived_ssrcs_witness:
  "ssrc (new_session\<lparr>ssrc := Some 100\<rparr>) = Some 100 \<and>
   ssrc_audio (new_session\<lparr>ssrc := Some 100\<rparr>) = Some 100 \<and>
   ssrc_video (new_session\<lparr>ssrc := Some 100\<rparr>) = Inr 101 \<and>
   ssrc_rtx (new_session\<lparr>ssrc := Some 100\<rparr>) = Inr 102 \<and>
   ssrc_rtcp (new_session\<lparr>ssrc := Some 100\<rparr>) = Inr 103"
  using derived_ssrcs [of "new_session\<lparr>ssrc := Some 100\<rparr>" 100]
  by simp

subsection \<open>The SSRC registry\<close>

lemma dict_setitem_entries: "set (dict_setitem d k v) \<subseteq> insert (k, v) (set d)"
  by (induction d) auto

lemma dict_setitem_lookup: "map_of (dict_setitem d k v) k = Some v"
  by (induction d) auto

lemma dict_setitem_key: "k \<in> set (map fst (dict_setitem d k v))"
  by (induction d) auto

lemma first_ssrc_of_None:
  "first_ssrc_of d ks user = None \<Longrightarrow> k \<in> set ks \<Longrightarrow> map_of d k \<noteq> Some user"
  by (induction ks) (auto split: if_splits)

lemma first_ssrc_of_Some:
  "first_ssrc_of d ks user = Some k \<Longrightarrow> map_of d k = Some user"
  by (induction ks) (auto split: if_splits)

text \<open>
  C7.  If every mapping of the registry whose value is \<open>user\<close> is under the key \<open>a\<close>
  (no other mapping for the user beforehand), then after \<open>CLIENT_CONNECT\<close> with
  \<open>user_id = user\<close>, \<open>audio_ssrc = a\<close> and then \<open>CLIENT_DISCONNECT\<close> with
  \<open>user_id = user\<close>, no mapping of the registry has the value \<open>user\<close>.
\<close>

theorem client_connect_then_disconnect:
  assumes "\<forall>(k, v) \<in> set (audio_ssrcs s). v = user \<longrightarrow> k = a"
  shows "user \<notin> snd ` set (audio_ssrcs
           (on_voice_client_disconnect (on_voice_client_connect s user a) user))"
proof -
  let ?d = "dict_setitem (audio_ssrcs s) a user"
  have only_a: "k = a" if "(k, user) \<in> set ?d" for k
    using that assms dict_setitem_entries [of "audio_ssrcs s" a user] by auto
  show ?thesis
  proof (cases "first_ssrc_of ?d (map fst ?d) user")
    case None
    from first_ssrc_of_None [OF None dict_setitem_key] dict_setitem_lookup
    show ?thesis by blast
  next
    case (Some k)
    then have "map_of ?d k = Some user" by (rule first_ssrc_of_Some)
    then have "(k, user) \<in> set ?d" by (rule map_of_SomeD)
    then have "k = a" by (rule only_a)
    with Some only_a show ?thesis
      by (auto simp: on_voice_client_disconnect_def on_voice_client_connect_def dict_delitem_def)
  qed
qed

theorem client_connect_then_disconnect_witness:
  "audio_ssrcs (new_session\<lparr>audio_ssrcs := [(11, 5), (12, 6)]\<rparr>) = [(11, 5), (12, 6)] \<and>
   audio_ssrcs (on_voice_client_disconnect (on_voice_client_connect
      (new_session\<lparr>audio_ssrcs := [(11, 5), (12, 6)]\<rparr>) 7 12) 7) = [(11, 5)] \<and>
   7 \<notin> snd ` set (audio_ssrcs (on_voice_client_disconnect (on_voice_client_connect
      (new_session\<lparr>audio_ssrcs := [(11, 5), (12, 6)]\<rparr>) 7 12) 7))"
  using client_connect_then_disconnect
    [of "new_session\<lparr>audio_ssrcs := [(11, 5), (12, 6)]\<rparr>" 7 12]
  by (simp add: on_voice_client_disconnect_def on_voice_client_connect_def dict_delitem_def)

subsection \<open>The example sessions\<close>

lemmas method_defs = run_def handshake_def order0_def ready0_def sdp0_def new_session_def
  init_def connect_def set_state_def do_effect_def set_voice_state_def set_endpoint_def
  set_token_def connect_and_run_def VOICE_GATEWAY_VERSION_def on_open_def send_def
  on_voice_hello_def on_voice_ready_def udp_connect_def on_voice_sdp_def Let_def

lemma connected_session_fields:
  "state connected_session = CONNECTED"
  "identified connected_session"
  "ws connected_session = Some True"
  "udp connected_session = Some True"
  "endpoint connected_session = Some ''voice.example''"
  "token connected_session = Some ''secret''"
  "reconnects connected_session = 0"
  "max_reconnects connected_session = 5"
  "heartbeat_greenlet connected_session = Some (Greenlet 41250 True)"
  "heartbeat_acknowledged connected_session"
  "server_id connected_session = 42"
  "voice_clients connected_session = {42}"
  by (simp_all add: connected_session_def method_defs)

subsection \<open>Classification of a closure\<close>

lemma backoffs_append: "backoffs (xs @ ys) = backoffs xs @ backoffs ys"
  by (induction xs rule: backoffs.induct) simp_all

lemma opens_append: "opens (xs @ ys) = opens xs @ opens ys"
  by (induction xs rule: opens.induct) simp_all

lemma hard_close_range:
  "hard_close code =
     (case code of None \<Rightarrow> False | Some c \<Rightarrow> (4001 \<le> c \<and> c \<le> 4016) \<or> c = 1001)"
  by (auto simp: hard_close_def split: option.splits)

lemmas on_close_defs = on_close_def Let_def set_state_def do_effect_def connect_and_run_def
  udp_disconnect_def new_effects_def budget_exceeded_def VOICE_GATEWAY_VERSION_def

lemma on_close_identified:
  assumes "state s \<noteq> DISCONNECTED" and "\<not> budget_exceeded s"
  shows "identified (snd (on_close s code reason)) = (identified s \<and> \<not> hard_close code)"
  using assms
  by (cases "max_reconnects s = 0"; simp add: on_close_defs split: option.splits)

lemma on_close_udp:
  assumes "state s \<noteq> DISCONNECTED" and "\<not> budget_exceeded s"
  shows "udp (snd (on_close s code reason)) =
           (if hard_close code \<and> udp s = Some True then Some False else udp s)"
  using assms
  by (cases "max_reconnects s = 0"; simp add: on_close_defs split: option.splits)

lemma on_close_effects:
  assumes "state s \<noteq> DISCONNECTED" and "\<not> budget_exceeded s"
  shows "new_effects s (snd (on_close s code reason)) =
           (if greenlet_alive (heartbeat_greenlet s) then [KillHeartbeat] else []) @
           [StateEmit RECONNECTING (state s)] @
           (if hard_close code \<and> udp s = Some True then [UdpDisconnect] else []) @
           [Sleep (if hard_close code then 5 else 1)] @
           (case endpoint s of None \<Rightarrow> [] | Some e \<Rightarrow> [WsOpen (''wss://'' @ e @ ''/?v=4'')])"
  using assms
  by (cases "max_reconnects s = 0"; simp add: on_close_defs split: option.splits)

text \<open>
  C1, as the code has it.  For a closure handled while the session is not
  \<open>DISCONNECTED\<close> and the reconnect budget is not exceeded: if the close code is in
  4001..4016 inclusive or is 1001, the closure is hard: \<open>identified\<close> is cleared, the
  media transport is not connected afterwards (a connected one is disconnected), and
  the backoff before reopening is 5 seconds.  For every other code, an absent one and 0
  included, the closure is soft: \<open>identified\<close> and the media transport are as before and
  the backoff is 1 second.
\<close>

theorem on_close_classification:
  assumes "state s \<noteq> DISCONNECTED" and "\<not> budget_exceeded s"
  shows "(if (case code of None \<Rightarrow> False | Some c \<Rightarrow> (4001 \<le> c \<and> c \<le> 4016) \<or> c = 1001)
          then \<not> identified (snd (on_close s code reason)) \<and>
               udp (snd (on_close s code reason)) \<noteq> Some True \<and>
               (udp s = Some True \<longrightarrow>
                  UdpDisconnect \<in> set (new_effects s (snd (on_close s code reason)))) \<and>
               backoffs (new_effects s (snd (on_close s code reason))) = [5]
          else identified (snd (on_close s code reason)) = identified s \<and>
               udp (snd (on_close s code reason)) = udp s \<and>
               UdpDisconnect \<notin> set (new_effects s (snd (on_close s code reason))) \<and>
               backoffs (new_effects s (snd (on_close s code reason))) = [1])"
  unfolding hard_close_range [symmetric]
  by (simp add: on_close_identified [OF assms] on_close_udp [OF assms]
      on_close_effects [OF assms] backoffs_append split: option.splits)

text \<open>
  At the connected example session, a closure with code 4006 is hard and closures with
  code 1000 or without a code are soft.
\<close>

theorem on_close_classification_witness:
  "state connected_session \<noteq> DISCONNECTED \<and> \<not> budget_exceeded connected_session \<and>
   identified connected_session \<and> udp connected_session = Some True \<and>
   \<not> identified (snd (on_close connected_session (Some 4006) None)) \<and>
   UdpDisconnect \<in> set (new_effects connected_session
      (snd (on_close connected_session (Some 4006) None))) \<and>
   backoffs (new_effects connected_session
      (snd (on_close connected_session (Some 4006) None))) = [5] \<and>
   identified (snd (on_close connected_session (Some 1000) None)) \<and>
   backoffs (new_effects connected_session
      (snd (on_close connected_session (Some 1000) None))) = [1] \<and>
   identified (snd (on_close connected_session None None)) \<and>
   backoffs (new_effects connected_session
      (snd (on_close connected_session None None))) = [1]"
proof -
  have h1: "state connected_session \<noteq> DISCONNECTED"
    by (simp add: connected_session_fields)
  have h2: "\<not> budget_exceeded connected_session"
    by (simp add: budget_exceeded_def connected_session_fields)
  show ?thesis
    using h1 h2
      on_close_classification [OF h1 h2, of "Some 4006" None]
      on_close_classification [OF h1 h2, of "Some 1000" None]
      on_close_classification [OF h1 h2, of None None]
    by (simp add: connected_session_fields)
qed

text \<open>
  The close code 4016 is outside 4001..4015 and is not 1001, and the closure is hard:
  \<open>identified\<close> is cleared and the backoff is 5 seconds.
\<close>

theorem close_code_4016_counterexample:
  "state connected_session \<noteq> DISCONNECTED \<and>
   (4016 :: int) \<notin> {4001..4015} \<and> (4016 :: int) \<noteq> 1001 \<and>
   identified connected_session \<and>
   \<not> identified (snd (on_close connected_session (Some 4016) None)) \<and>
   backoffs (new_effects connected_session
      (snd (on_close connected_session (Some 4016) None))) = [5]"
proof -
  have h1: "state connected_session \<noteq> DISCONNECTED"
    by (simp add: connected_session_fields)
  have h2: "\<not> budget_exceeded connected_session"
    by (simp add: budget_exceeded_def connected_session_fields)
  show ?thesis
    using h1
    by (simp add: on_close_identified [OF h1 h2] on_close_effects [OF h1 h2]
        hard_close_def connected_session_fields backoffs_append)
qed

subsection \<open>A missed heartbeat acknowledgment\<close>

lemma heartbeat_body_forced:
  assumes "\<not> heartbeat_acknowledged s" and "ws s \<noteq> None"
  shows "heartbeat_body interval s =
           Returned
             (fst (on_close_in_heartbeat
                     (do_effect (WsClose (Some 4000)) (s\<lparr>heartbeat_acknowledged := True\<rparr>))
                     (Some 0) (Some ''HEARTBEAT failure'')))
             (snd (on_close_in_heartbeat
                     (do_effect (WsClose (Some 4000)) (s\<lparr>heartbeat_acknowledged := True\<rparr>))
                     (Some 0) (Some ''HEARTBEAT failure'')))"
  using assms by (auto simp: heartbeat_body_def Let_def split: prod.splits)

lemma heartbeat_task_returns:
  "task_returned (heartbeat_body interval s) \<Longrightarrow>
     heartbeat_task interval during_sleeps s = heartbeat_body interval s"
  by (cases during_sleeps; cases "heartbeat_body interval s"; simp)

lemma heartbeat_self_kill:
  assumes "\<not> heartbeat_acknowledged s" and "ws s \<noteq> None"
    and "greenlet_alive (heartbeat_greenlet s)"
  shows "heartbeat_body interval s =
           Returned (Some GreenletExit)
             (do_effect KillHeartbeat
                (do_effect (WsClose (Some 4000)) (s\<lparr>heartbeat_acknowledged := True\<rparr>)))"
  unfolding heartbeat_body_forced [OF assms(1,2)]
  using assms(3) by (simp add: on_close_in_heartbeat_def do_effect_def)



lemma unacked_session_fields:
  "state unacked_session = CONNECTED"
  "identified unacked_session"
  "ws unacked_session = Some True"
  "udp unacked_session = Some True"
  "endpoint unacked_session = Some ''voice.example''"
  "token unacked_session = Some ''secret''"
  "reconnects unacked_session = 0"
  "max_reconnects unacked_session = 5"
  "heartbeat_greenlet unacked_session = Some (Greenlet 41250 True)"
  "\<not> heartbeat_acknowledged unacked_session"
  "server_id unacked_session = 42"
  "session_id unacked_session = ''gateway-session''"
  by (simp_all add: unacked_session_def method_defs heartbeat_body_def)

lemma detached_session_fields:
  "state detached_session = CONNECTED"
  "ws detached_session = None"
  "heartbeat_greenlet detached_session = Some (Greenlet 41250 True)"
  "\<not> heartbeat_acknowledged detached_session"
  by (simp_all add: detached_session_def method_defs heartbeat_body_def)


lemma last_chance_session_fields:
  "state last_chance_session = CONNECTED"
  "ws last_chance_session = Some True"
  "reconnects last_chance_session = 1"
  "max_reconnects last_chance_session = 1"
  "heartbeat_greenlet last_chance_session = Some (Greenlet 41250 True)"
  "\<not> heartbeat_acknowledged last_chance_session"
  "server_id last_chance_session = 42"
  by (simp_all add: last_chance_session_def method_defs heartbeat_body_def on_close_def
      hard_close_def on_voice_resumed_def)

text \<open>
  C2.  What the code does in a pass of the heartbeat loop that finds the previous
  heartbeat unacknowledged.  On the connected session, whose heartbeat task is the
  greenlet stored in \<open>_heartbeat_task\<close>: the pass closes the websocket with status 4000
  and calls \<open>on_close\<close>, which kills the calling greenlet at its first step; the task
  ends there with \<open>GreenletExit\<close>, whatever the rest of the program would do during later
  sleeps, and nothing of the reconnection has run: the state is still \<open>CONNECTED\<close>, the
  reconnect counter is unchanged, the websocket is still stored, nothing was slept and
  no websocket was opened.  On the session whose websocket was dropped by a new
  endpoint: the pass raises \<open>AttributeError\<close>, nothing is closed and \<open>on_close\<close> is not
  called.
\<close>

theorem heartbeat_missed_ack_forces_no_reconnect:
  "\<not> heartbeat_acknowledged unacked_session \<and>
   ws unacked_session = Some True \<and>
   heartbeat_greenlet unacked_session = Some (Greenlet 41250 True) \<and>
   state unacked_session = CONNECTED \<and>
   task_error (heartbeat_body 41250 unacked_session) = Some GreenletExit \<and>
   heartbeat_task 41250 [handle_heartbeat_acknowledge, on_open] unacked_session =
     heartbeat_body 41250 unacked_session \<and>
   new_effects unacked_session (task_session (heartbeat_body 41250 unacked_session)) =
     [WsClose (Some 4000), KillHeartbeat] \<and>
   state (task_session (heartbeat_body 41250 unacked_session)) = CONNECTED \<and>
   reconnects (task_session (heartbeat_body 41250 unacked_session)) = 0 \<and>
   ws (task_session (heartbeat_body 41250 unacked_session)) = Some True \<and>
   opens (new_effects unacked_session (task_session (heartbeat_body 41250 unacked_session))) =
     [] \<and>
   \<not> heartbeat_acknowledged detached_session \<and>
   ws detached_session = None \<and>
   heartbeat_greenlet detached_session = Some (Greenlet 41250 True) \<and>
   heartbeat_body 41250 detached_session =
     Returned (Some AttributeError) (detached_session\<lparr>heartbeat_acknowledged := True\<rparr>) \<and>
   new_effects detached_session (task_session (heartbeat_body 41250 detached_session)) = []"
proof -
  have unacked: "\<not> heartbeat_acknowledged unacked_session"
    by (simp add: unacked_session_fields)
  have attached: "ws unacked_session \<noteq> None"
    by (simp add: unacked_session_fields)
  have alive: "greenlet_alive (heartbeat_greenlet unacked_session)"
    by (simp add: unacked_session_fields)
  note killed = heartbeat_self_kill [OF unacked attached alive, of 41250]
  have raised: "task_error (heartbeat_body 41250 unacked_session) = Some GreenletExit"
    by (simp add: killed)
  have "task_returned (heartbeat_body 41250 unacked_session)"
    by (simp add: killed)
  then have loop: "heartbeat_task 41250 [handle_heartbeat_acknowledge, on_open] unacked_session =
      heartbeat_body 41250 unacked_session"
    by (rule heartbeat_task_returns)
  have added: "new_effects unacked_session (task_session (heartbeat_body 41250 unacked_session)) =
      [WsClose (Some 4000), KillHeartbeat]"
    by (simp add: killed do_effect_def new_effects_def)
  have still: "state (task_session (heartbeat_body 41250 unacked_session)) = CONNECTED"
    by (simp add: killed do_effect_def unacked_session_fields)
  have counter: "reconnects (task_session (heartbeat_body 41250 unacked_session)) = 0"
    by (simp add: killed do_effect_def unacked_session_fields)
  have stored: "ws (task_session (heartbeat_body 41250 unacked_session)) = Some True"
    by (simp add: killed do_effect_def unacked_session_fields)
  have unopened: "opens (new_effects unacked_session
      (task_session (heartbeat_body 41250 unacked_session))) = []"
    by (simp add: added)
  have detached: "heartbeat_body 41250 detached_session =
      Returned (Some AttributeError) (detached_session\<lparr>heartbeat_acknowledged := True\<rparr>)"
    by (simp add: heartbeat_body_def detached_session_fields)
  have untouched:
    "new_effects detached_session (task_session (heartbeat_body 41250 detached_session)) = []"
    by (simp add: detached new_effects_def)
  show ?thesis
    apply (intro conjI)
                   apply (rule unacked)
                  apply (rule unacked_session_fields(3))
                 apply (rule unacked_session_fields(9))
                apply (rule unacked_session_fields(1))
               apply (rule raised)
              apply (rule loop)
             apply (rule added)
            apply (rule still)
           apply (rule counter)
          apply (rule stored)
         apply (rule unopened)
        apply (rule detached_session_fields(4))
       apply (rule detached_session_fields(2))
      apply (rule detached_session_fields(3))
     apply (rule detached)
    apply (rule untouched)
    done
qed





subsection \<open>Endpoint and token in either order\<close>

lemma signalling_keeps_transport_guard:
  assumes "ws s \<noteq> None \<or> opens (effects s) \<noteq> [] \<longrightarrow> endpoint s \<noteq> None \<and> token s \<noteq> None"
    and "signalling ev"
  shows "ws (step it s ev) \<noteq> None \<or> opens (effects (step it s ev)) \<noteq> [] \<longrightarrow>
         endpoint (step it s ev) \<noteq> None \<and> token (step it s ev) \<noteq> None"
proof (cases ev)
  case (SetEndpoint ep)
  with assms(1) show ?thesis
    by (auto simp: set_endpoint_def Let_def do_effect_def opens_append)
next
  case (SetToken tok)
  with assms(1) show ?thesis
    by (auto simp: set_token_def connect_and_run_def Let_def do_effect_def opens_append
        split: option.splits)
qed (use assms(2) in simp_all)

lemma run_keeps_transport_guard:
  assumes "list_all signalling evs"
    and "ws s \<noteq> None \<or> opens (effects s) \<noteq> [] \<longrightarrow> endpoint s \<noteq> None \<and> token s \<noteq> None"
  shows "ws (run it s evs) \<noteq> None \<or> opens (effects (run it s evs)) \<noteq> [] \<longrightarrow>
         endpoint (run it s evs) \<noteq> None \<and> token (run it s evs) \<noteq> None"
  using assms
proof (induction evs arbitrary: s)
  case Nil
  then show ?case by (simp add: run_def)
next
  case (Cons ev evs)
  from Cons.prems have "signalling ev" and rest: "list_all signalling evs"
    by simp_all
  from signalling_keeps_transport_guard [OF Cons.prems(2) \<open>signalling ev\<close>, of it]
  have "ws (run it (step it s ev) evs) \<noteq> None \<or> opens (effects (run it (step it s ev) evs)) \<noteq> []
      \<longrightarrow> endpoint (run it (step it s ev) evs) \<noteq> None \<and> token (run it (step it s ev) evs) \<noteq> None"
    by (rule Cons.IH [OF rest])
  then show ?case by (simp add: run_def)
qed

text \<open>
  C5.  After any sequence of \<open>set_endpoint\<close> and \<open>set_token\<close> calls on a new session,
  in whatever order and however often, if a websocket has been opened (one is stored in
  \<open>ws\<close>, or one was ever run) then both the endpoint and the token are present.  The
  sequence is arbitrary, so this holds after each of its calls: no websocket is opened
  before both are there.
\<close>

theorem transport_needs_endpoint_and_token:
  assumes "list_all signalling evs"
  shows "ws (run it (init registry gw_session_id me sid dm maxr) evs) \<noteq> None \<or>
         opens (effects (run it (init registry gw_session_id me sid dm maxr) evs)) \<noteq> [] \<longrightarrow>
         endpoint (run it (init registry gw_session_id me sid dm maxr) evs) \<noteq> None \<and>
         token (run it (init registry gw_session_id me sid dm maxr) evs) \<noteq> None"
  by (rule run_keeps_transport_guard [OF assms]) (simp add: init_def)

text \<open>
  Endpoint first, then token: the websocket is opened, with both present.  (Token
  first: \<open>set_token\<close> raises \<open>TypeError\<close> on the missing endpoint and nothing is opened.)
\<close>

theorem transport_needs_endpoint_and_token_witness:
  "list_all signalling [SetEndpoint ''voice.example:443'', SetToken ''secret''] \<and>
   opens (effects (run order0 (init {} ''gateway-session'' 7 42 False 5)
      [SetEndpoint ''voice.example:443'', SetToken ''secret''])) =
     [''wss://voice.example/?v=4''] \<and>
   endpoint (run order0 (init {} ''gateway-session'' 7 42 False 5)
      [SetEndpoint ''voice.example:443'', SetToken ''secret'']) \<noteq> None \<and>
   token (run order0 (init {} ''gateway-session'' 7 42 False 5)
      [SetEndpoint ''voice.example:443'', SetToken ''secret'']) \<noteq> None \<and>
   fst (set_token (init {} ''gateway-session'' 7 42 False 5) ''secret'') = Some TypeError \<and>
   opens (effects (run order0 (init {} ''gateway-session'' 7 42 False 5)
      [SetToken ''secret'', SetEndpoint ''voice.example:443''])) = []"
proof -
  have h: "list_all signalling [SetEndpoint ''voice.example:443'', SetToken ''secret'']"
    by simp
  have opened: "opens (effects (run order0 (init {} ''gateway-session'' 7 42 False 5)
      [SetEndpoint ''voice.example:443'', SetToken ''secret''])) = [''wss://voice.example/?v=4'']"
    by (simp add: method_defs)
  have other: "fst (set_token (init {} ''gateway-session'' 7 42 False 5) ''secret'') = Some TypeError"
    "opens (effects (run order0 (init {} ''gateway-session'' 7 42 False 5)
      [SetToken ''secret'', SetEndpoint ''voice.example:443''])) = []"
    by (simp_all add: method_defs)
  from transport_needs_endpoint_and_token [OF h, of order0 "{}" "''gateway-session''" 7 42 False 5]
    opened
  have both: "endpoint (run order0 (init {} ''gateway-session'' 7 42 False 5)
      [SetEndpoint ''voice.example:443'', SetToken ''secret'']) \<noteq> None \<and>
    token (run order0 (init {} ''gateway-session'' 7 42 False 5)
      [SetEndpoint ''voice.example:443'', SetToken ''secret'']) \<noteq> None"
    by simp
  from h opened both other show ?thesis
    by simp
qed

subsection \<open>Disconnecting twice\<close>

lemma disconnect_state: "state (snd (disconnect s)) = DISCONNECTED"
  by (simp add: disconnect_def Let_def set_state_def do_effect_def set_voice_state_def
      udp_disconnect_def)

lemma disconnect_noop: "state s = DISCONNECTED \<Longrightarrow> disconnect s = (None, s)"
  by (simp add: disconnect_def)

lemma disconnect_registered:
  assumes "state s \<noteq> DISCONNECTED" and "server_id s \<in> voice_clients s"
  shows "fst (disconnect s) = None"
    and "voice_clients (snd (disconnect s)) = voice_clients s - {server_id s}"
    and "count_list (new_effects s (snd (disconnect s))) EmitVoiceDisconnect = 1"
  using assms
  by (simp_all add: disconnect_def Let_def set_state_def do_effect_def set_voice_state_def
      udp_disconnect_def new_effects_def)

lemma retried_session_fields:
  "state retried_session = AWAITING_ENDPOINT"
  "voice_clients retried_session = {}"
  "server_id retried_session = 42"
  "udp retried_session = None"
  "ws retried_session = None"
  "media_proc retried_session = False"
  by (simp_all add: retried_session_def method_defs connect_wait_def disconnect_def)

text \<open>
  C6, as the code has it.  \<open>disconnect()\<close> on a \<open>DISCONNECTED\<close> session changes nothing
  and raises nothing, and a second \<open>disconnect()\<close> right after a first one is always such
  a call.  From a session that is not \<open>DISCONNECTED\<close> and is in the owning client's
  registry, the first call raises nothing and the two calls together publish exactly
  one \<open>VoiceDisconnect\<close> and take exactly the session's key out of the registry.
\<close>

theorem disconnect_idempotent:
  "(state s = DISCONNECTED \<longrightarrow> disconnect s = (None, s)) \<and>
   disconnect (snd (disconnect s)) = (None, snd (disconnect s)) \<and>
   (state s \<noteq> DISCONNECTED \<and> server_id s \<in> voice_clients s \<longrightarrow>
      fst (disconnect s) = None \<and>
      state (snd (disconnect s)) = DISCONNECTED \<and>
      count_list (new_effects s (snd (disconnect (snd (disconnect s))))) EmitVoiceDisconnect = 1 \<and>
      voice_clients (snd (disconnect (snd (disconnect s)))) = voice_clients s - {server_id s})"
proof -
  have second: "disconnect (snd (disconnect s)) = (None, snd (disconnect s))"
    by (rule disconnect_noop [OF disconnect_state])
  show ?thesis
    by (simp add: second disconnect_noop disconnect_state disconnect_registered)
qed

theorem disconnect_idempotent_witness:
  "state connected_session = CONNECTED \<and> voice_clients connected_session = {42} \<and>
   server_id connected_session = 42 \<and>
   fst (disconnect connected_session) = None \<and>
   disconnect (snd (disconnect connected_session)) = (None, snd (disconnect connected_session)) \<and>
   count_list (new_effects connected_session
     (snd (disconnect (snd (disconnect connected_session))))) EmitVoiceDisconnect = 1 \<and>
   voice_clients (snd (disconnect (snd (disconnect connected_session)))) = {}"
proof -
  note w = disconnect_idempotent [of connected_session]
  have pre: "state connected_session \<noteq> DISCONNECTED \<and>
      server_id connected_session \<in> voice_clients connected_session"
    by (simp add: connected_session_fields)
  from w have second: "disconnect (snd (disconnect connected_session)) =
      (None, snd (disconnect connected_session))"
    by (elim conjE)
  from w have imp: "state connected_session \<noteq> DISCONNECTED \<and>
      server_id connected_session \<in> voice_clients connected_session \<longrightarrow>
      fst (disconnect connected_session) = None \<and>
      state (snd (disconnect connected_session)) = DISCONNECTED \<and>
      count_list (new_effects connected_session
        (snd (disconnect (snd (disconnect connected_session))))) EmitVoiceDisconnect = 1 \<and>
      voice_clients (snd (disconnect (snd (disconnect connected_session)))) =
        voice_clients connected_session - {server_id connected_session}"
    by (elim conjE)
  note both = mp [OF imp pre]
  from both have first: "fst (disconnect connected_session) = None"
    by (elim conjE)
  from both have once: "count_list (new_effects connected_session
      (snd (disconnect (snd (disconnect connected_session))))) EmitVoiceDisconnect = 1"
    by (elim conjE)
  from both have "voice_clients (snd (disconnect (snd (disconnect connected_session)))) =
      voice_clients connected_session - {server_id connected_session}"
    by (elim conjE)
  then have removed: "voice_clients (snd (disconnect (snd (disconnect connected_session)))) = {}"
    by (simp only: connected_session_fields Diff_cancel)
  show ?thesis
    apply (intro conjI)
          apply (rule connected_session_fields(1))
         apply (rule connected_session_fields(12))
        apply (rule connected_session_fields(11))
       apply (rule first)
      apply (rule second)
     apply (rule once)
    apply (rule removed)
    done
qed

text \<open>
  A session that is not \<open>DISCONNECTED\<close> and no longer registered: \<open>disconnect()\<close> raises
  \<open>KeyError\<close> and publishes no \<open>VoiceDisconnect\<close>.
\<close>

theorem disconnect_unregistered_counterexample:
  "state retried_session = AWAITING_ENDPOINT \<and>
   fst (disconnect retried_session) = Some KeyError \<and>
   count_list (new_effects retried_session
     (snd (disconnect (snd (disconnect retried_session))))) EmitVoiceDisconnect = 0"
proof -
  have first: "disconnect retried_session =
      (Some KeyError,
       set_voice_state (set_state retried_session DISCONNECTED) None False False False)"
    by (simp add: disconnect_def Let_def retried_session_fields set_state_def do_effect_def
        set_voice_state_def)
  have raised: "fst (disconnect retried_session) = Some KeyError"
    by (simp only: first fst_conv)
  have "disconnect (snd (disconnect retried_session)) = (None, snd (disconnect retried_session))"
    by (rule disconnect_noop [OF disconnect_state])
  then have "snd (disconnect (snd (disconnect retried_session))) =
      snd (disconnect retried_session)"
    by (simp only: snd_conv)
  also have "\<dots> = set_voice_state (set_state retried_session DISCONNECTED) None False False False"
    by (simp only: first snd_conv)
  finally have after: "snd (disconnect (snd (disconnect retried_session))) =
      set_voice_state (set_state retried_session DISCONNECTED) None False False False" .
  have silent: "count_list (new_effects retried_session
      (snd (disconnect (snd (disconnect retried_session))))) EmitVoiceDisconnect = 0"
    unfolding after
    by (simp add: new_effects_def set_state_def do_effect_def set_voice_state_def)
  show ?thesis
    apply (intro conjI)
      apply (rule retried_session_fields(1))
     apply (rule raised)
    apply (rule silent)
    done
qed

subsection \<open>Selection of the encryption mode\<close>

lemma select_mode_None: "select_mode it modes = None \<longleftrightarrow> set it \<inter> set modes = {}"
  by (induction it) auto

lemma select_mode_Some:
  "select_mode it modes = Some m \<Longrightarrow>
     m \<in> set modes \<and> (\<exists>before after. it = before @ m # after \<and> set before \<inter> set modes = {})"
proof (induction it)
  case Nil
  then show ?case by simp
next
  case (Cons a it)
  show ?case
  proof (cases "a \<in> set modes")
    case True
    with Cons.prems have "m = a" by simp
    with True have "m \<in> set modes \<and> a # it = [] @ m # it \<and> set [] \<inter> set modes = {}"
      by simp
    then show ?thesis by blast
  next
    case False
    with Cons.prems have "select_mode it modes = Some m" by simp
    from Cons.IH [OF this] obtain before after
      where "m \<in> set modes" "it = before @ m # after" "set before \<inter> set modes = {}"
      by blast
    with False have "m \<in> set modes \<and> a # it = (a # before) @ m # after \<and>
        set (a # before) \<inter> set modes = {}"
      by simp
    then show ?thesis by blast
  qed
qed

lemma disconnect_mode: "mode (snd (disconnect s)) = mode s"
  by (simp add: disconnect_def Let_def set_state_def do_effect_def set_voice_state_def
      udp_disconnect_def)

lemma on_voice_ready_mode:
  "mode (snd (on_voice_ready it s d disc)) =
     (case select_mode it (d_modes d) of None \<Rightarrow> mode s | Some m \<Rightarrow> Some m)"
  by (simp add: on_voice_ready_def Let_def set_state_def do_effect_def udp_connect_def send_def
      disconnect_mode split: option.splits)

lemma on_voice_ready_no_mode:
  "select_mode it (d_modes d) = None \<Longrightarrow>
     on_voice_ready it s d disc =
       (Some (PyException ''Failed to find a supported voice mode''),
        (set_state s CONNECTING)\<lparr>ssrc := Some (d_ssrc d), ip := Some (d_ip d),
           port := Some (d_port d), identified := True\<rparr>)"
  by (simp add: on_voice_ready_def Let_def)

lemma on_voice_ready_error:
  "select_mode it (d_modes d) \<noteq> None \<Longrightarrow>
     fst (on_voice_ready it s d disc) \<noteq> Some (PyException ''Failed to find a supported voice mode'')"
  by (auto simp: on_voice_ready_def Let_def disconnect_def split: option.splits)

text \<open>
  C4, as the code has it.  On \<open>READY\<close> the mode is chosen by visiting the members of
  the set \<open>SUPPORTED_MODES\<close> in the set's iteration order \<open>it\<close> and taking the first one
  that is among the advertised modes.  If no supported mode is advertised, the handler
  raises the exception \<open>Failed to find a supported voice mode\<close> and \<open>mode\<close> is unchanged.
  Otherwise the chosen mode is supported and advertised, no member visited before it is
  advertised, and that exception is not raised.  If exactly one supported mode \<open>m\<close> is
  advertised, \<open>m\<close> is chosen, whatever the iteration order.
\<close>

theorem mode_selection:
  assumes "iteration_order it"
  shows "(set (d_modes d) \<inter> SUPPORTED_MODES = {} \<longrightarrow>
            fst (on_voice_ready it s d disc) =
              Some (PyException ''Failed to find a supported voice mode'') \<and>
            mode (snd (on_voice_ready it s d disc)) = mode s) \<and>
         (set (d_modes d) \<inter> SUPPORTED_MODES \<noteq> {} \<longrightarrow>
            (\<exists>m before after.
               mode (snd (on_voice_ready it s d disc)) = Some m \<and>
               m \<in> SUPPORTED_MODES \<and> m \<in> set (d_modes d) \<and>
               it = before @ m # after \<and> set before \<inter> set (d_modes d) = {}) \<and>
            fst (on_voice_ready it s d disc) \<noteq>
              Some (PyException ''Failed to find a supported voice mode'')) \<and>
         (set (d_modes d) \<inter> SUPPORTED_MODES = {m} \<longrightarrow>
            mode (snd (on_voice_ready it s d disc)) = Some m)"
proof -
  let ?err = "fst (on_voice_ready it s d disc)"
  let ?mode = "mode (snd (on_voice_ready it s d disc))"
  let ?failed = "Some (PyException ''Failed to find a supported voice mode'')"
  from assms have members: "set it = SUPPORTED_MODES"
    by (simp add: iteration_order_def)
  have none: "set (d_modes d) \<inter> SUPPORTED_MODES = {} \<longrightarrow> ?err = ?failed \<and> ?mode = mode s"
  proof
    assume "set (d_modes d) \<inter> SUPPORTED_MODES = {}"
    with members have unchosen: "select_mode it (d_modes d) = None"
      by (simp add: select_mode_None Int_commute)
    have "?err = ?failed"
      by (simp add: on_voice_ready_no_mode [OF unchosen])
    moreover have "?mode = mode s"
      by (simp add: on_voice_ready_mode unchosen)
    ultimately show "?err = ?failed \<and> ?mode = mode s"
      by (rule conjI)
  qed
  have some: "(\<exists>m before after. ?mode = Some m \<and> m \<in> SUPPORTED_MODES \<and> m \<in> set (d_modes d) \<and>
        it = before @ m # after \<and> set before \<inter> set (d_modes d) = {}) \<and> ?err \<noteq> ?failed"
    if overlap: "set (d_modes d) \<inter> SUPPORTED_MODES \<noteq> {}"
  proof -
    from overlap members have "select_mode it (d_modes d) \<noteq> None"
      by (simp add: select_mode_None Int_commute)
    then obtain m' where chosen: "select_mode it (d_modes d) = Some m'"
      by (cases "select_mode it (d_modes d)") simp_all
    from select_mode_Some [OF chosen] obtain before after
      where advertised: "m' \<in> set (d_modes d)" and place: "it = before @ m' # after"
        and earlier: "set before \<inter> set (d_modes d) = {}"
      by (elim conjE exE)
    from place have "m' \<in> set it"
      by simp
    with members have supported: "m' \<in> SUPPORTED_MODES"
      by simp
    have stored: "?mode = Some m'"
      by (simp add: on_voice_ready_mode chosen)
    have "?err \<noteq> ?failed"
      by (rule on_voice_ready_error) (simp add: chosen)
    moreover have "\<exists>m before after. ?mode = Some m \<and> m \<in> SUPPORTED_MODES \<and>
        m \<in> set (d_modes d) \<and> it = before @ m # after \<and> set before \<inter> set (d_modes d) = {}"
      by (intro exI [of _ m'] exI [of _ before] exI [of _ after] conjI
          stored supported advertised place earlier)
    ultimately show ?thesis
      by (intro conjI)
  qed
  have only: "set (d_modes d) \<inter> SUPPORTED_MODES = {m} \<longrightarrow> ?mode = Some m"
  proof
    assume single: "set (d_modes d) \<inter> SUPPORTED_MODES = {m}"
    then have "set (d_modes d) \<inter> SUPPORTED_MODES \<noteq> {}"
      by simp
    from some [OF this] obtain m' where stored: "?mode = Some m'"
      and "m' \<in> SUPPORTED_MODES" and "m' \<in> set (d_modes d)"
      by (elim conjE exE)
    then have "m' \<in> set (d_modes d) \<inter> SUPPORTED_MODES"
      by simp
    with single have "m' = m"
      by simp
    with stored show "?mode = Some m"
      by simp
  qed
  have some': "set (d_modes d) \<inter> SUPPORTED_MODES \<noteq> {} \<longrightarrow>
      (\<exists>m before after. ?mode = Some m \<and> m \<in> SUPPORTED_MODES \<and> m \<in> set (d_modes d) \<and>
        it = before @ m # after \<and> set before \<inter> set (d_modes d) = {}) \<and> ?err \<noteq> ?failed"
    by (rule impI) (rule some)
  show ?thesis
    by (rule conjI [OF none conjI [OF some' only]])
qed

lemma iteration_order_order0: "iteration_order order0"
  by (auto simp: iteration_order_def order0_def SUPPORTED_MODES_def)

lemma iteration_order_rev_order0: "iteration_order (rev order0)"
  by (auto simp: iteration_order_def order0_def SUPPORTED_MODES_def)

text \<open>
  With the iteration order lite, suffix, plain and the advertised modes
  \<open>xsalsa20_poly1305\<close> alone, \<open>xsalsa20_poly1305\<close> is chosen; with advertised modes that
  are all unsupported, the handler raises.
\<close>

theorem mode_selection_witness:
  "iteration_order order0 \<and>
   set (d_modes ready0) \<inter> SUPPORTED_MODES = {''xsalsa20_poly1305''} \<and>
   mode (snd (on_voice_ready order0 new_session ready0 (Some ''198.51.100.7'', Some 40000))) =
     Some ''xsalsa20_poly1305'' \<and>
   set (d_modes ready_foreign_modes) \<inter> SUPPORTED_MODES = {} \<and>
   fst (on_voice_ready order0 new_session ready_foreign_modes (Some ''198.51.100.7'', Some 40000)) =
     Some (PyException ''Failed to find a supported voice mode'')"
proof -
  have one: "set (d_modes ready0) \<inter> SUPPORTED_MODES = {''xsalsa20_poly1305''}"
    by (simp add: ready0_def SUPPORTED_MODES_def)
  have no: "set (d_modes ready_foreign_modes) \<inter> SUPPORTED_MODES = {}"
    by (simp add: ready_foreign_modes_def ready0_def SUPPORTED_MODES_def)
  note w1 = mode_selection [OF iteration_order_order0, of ready0 new_session
      "(Some ''198.51.100.7'', Some 40000)" "''xsalsa20_poly1305''"]
  note w2 = mode_selection [OF iteration_order_order0, of ready_foreign_modes new_session
      "(Some ''198.51.100.7'', Some 40000)" "''xsalsa20_poly1305''"]
  have chosen:
    "mode (snd (on_voice_ready order0 new_session ready0 (Some ''198.51.100.7'', Some 40000))) =
       Some ''xsalsa20_poly1305''"
    by (rule mp [OF conjunct2 [OF conjunct2 [OF w1]] one])
  have raised:
    "fst (on_voice_ready order0 new_session ready_foreign_modes
       (Some ''198.51.100.7'', Some 40000)) =
     Some (PyException ''Failed to find a supported voice mode'')"
    by (rule conjunct1 [OF mp [OF conjunct1 [OF w2] no]])
  show ?thesis
    apply (intro conjI)
        apply (rule iteration_order_order0)
       apply (rule one)
      apply (rule chosen)
     apply (rule no)
    apply (rule raised)
    done
qed

text \<open>
  Two iteration orders of \<open>SUPPORTED_MODES\<close> and one \<open>READY\<close> payload, advertising
  \<open>xsalsa20_poly1305\<close> and \<open>xsalsa20_poly1305_lite\<close>: the chosen modes differ.
\<close>

theorem mode_selection_order_counterexample:
  "iteration_order order0 \<and> iteration_order (rev order0) \<and>
   mode (snd (on_voice_ready order0 new_session ready_two_modes
     (Some ''198.51.100.7'', Some 40000))) = Some ''xsalsa20_poly1305_lite'' \<and>
   mode (snd (on_voice_ready (rev order0) new_session ready_two_modes
     (Some ''198.51.100.7'', Some 40000))) = Some ''xsalsa20_poly1305''"
proof -
  have lite: "mode (snd (on_voice_ready order0 new_session ready_two_modes
      (Some ''198.51.100.7'', Some 40000))) = Some ''xsalsa20_poly1305_lite''"
    by (simp add: on_voice_ready_mode order0_def ready_two_modes_def)
  have plain: "mode (snd (on_voice_ready (rev order0) new_session ready_two_modes
      (Some ''198.51.100.7'', Some 40000))) = Some ''xsalsa20_poly1305''"
    by (simp add: on_voice_ready_mode order0_def ready_two_modes_def)
  show ?thesis
    apply (intro conjI)
       apply (rule iteration_order_order0)
      apply (rule iteration_order_rev_order0)
     apply (rule lite)
    apply (rule plain)
    done
qed

subsection \<open>The fatal errors\<close>

lemma on_close_budget_exceeded:
  assumes "state s \<noteq> DISCONNECTED" and "budget_exceeded s"
  shows "fst (on_close s code reason) =
           Some (VoiceException ''Failed to reconnect after {} attempts, giving up'' (server_id s))"
    and "state (snd (on_close s code reason)) = RECONNECTING"
    and "voice_clients (snd (on_close s code reason)) = voice_clients s"
    and "opens (new_effects s (snd (on_close s code reason))) = []"
  using assms
  by (simp_all add: on_close_def Let_def set_state_def do_effect_def budget_exceeded_def
      new_effects_def)

lemma connect_empty_channel:
  "(if is_dm s then Some (server_id s) else channel) \<in> {None, Some 0} \<Longrightarrow>
     connect s channel mute deaf video =
       (Raised (VoiceException ''[{}] cannot connect to an empty channel id'' (server_id s)), s)"
  by (auto simp: connect_def Let_def)

text \<open>
  C3, as the code has it.  A closure that exceeds the reconnect budget raises
  \<open>VoiceException\<close> carrying the session, and leaves the session in state
  \<open>RECONNECTING\<close>, with the registry as it was and no websocket opened.  A \<open>READY\<close>
  that advertises no supported mode raises a plain \<open>Exception\<close>, which carries no
  session, and leaves the session in state \<open>CONNECTING\<close> with the registry as it was.
  \<open>connect\<close> with an empty channel id (\<open>None\<close> or 0, after the substitution of the
  server id for a DM) raises \<open>VoiceException\<close> carrying the session and leaves the
  session, its state and the registry, exactly as they were.
\<close>

theorem fatal_errors:
  "(state s \<noteq> DISCONNECTED \<and> budget_exceeded s \<longrightarrow>
      fst (on_close s code reason) =
        Some (VoiceException ''Failed to reconnect after {} attempts, giving up'' (server_id s)) \<and>
      state (snd (on_close s code reason)) = RECONNECTING \<and>
      voice_clients (snd (on_close s code reason)) = voice_clients s \<and>
      opens (new_effects s (snd (on_close s code reason))) = []) \<and>
   (iteration_order it \<and> set (d_modes d) \<inter> SUPPORTED_MODES = {} \<longrightarrow>
      fst (on_voice_ready it s d disc) =
        Some (PyException ''Failed to find a supported voice mode'') \<and>
      state (snd (on_voice_ready it s d disc)) = CONNECTING \<and>
      voice_clients (snd (on_voice_ready it s d disc)) = voice_clients s) \<and>
   ((if is_dm s then Some (server_id s) else channel) \<in> {None, Some 0} \<longrightarrow>
      connect s channel mute deaf video =
        (Raised (VoiceException ''[{}] cannot connect to an empty channel id'' (server_id s)), s))"
proof -
  have budget: "state s \<noteq> DISCONNECTED \<and> budget_exceeded s \<longrightarrow>
      fst (on_close s code reason) =
        Some (VoiceException ''Failed to reconnect after {} attempts, giving up'' (server_id s)) \<and>
      state (snd (on_close s code reason)) = RECONNECTING \<and>
      voice_clients (snd (on_close s code reason)) = voice_clients s \<and>
      opens (new_effects s (snd (on_close s code reason))) = []"
  proof
    assume "state s \<noteq> DISCONNECTED \<and> budget_exceeded s"
    then have live: "state s \<noteq> DISCONNECTED" and over: "budget_exceeded s"
      by simp_all
    show "fst (on_close s code reason) =
        Some (VoiceException ''Failed to reconnect after {} attempts, giving up'' (server_id s)) \<and>
      state (snd (on_close s code reason)) = RECONNECTING \<and>
      voice_clients (snd (on_close s code reason)) = voice_clients s \<and>
      opens (new_effects s (snd (on_close s code reason))) = []"
      by (intro conjI on_close_budget_exceeded [OF live over])
  qed
  have no_mode: "iteration_order it \<and> set (d_modes d) \<inter> SUPPORTED_MODES = {} \<longrightarrow>
      fst (on_voice_ready it s d disc) =
        Some (PyException ''Failed to find a supported voice mode'') \<and>
      state (snd (on_voice_ready it s d disc)) = CONNECTING \<and>
      voice_clients (snd (on_voice_ready it s d disc)) = voice_clients s"
  proof
    assume "iteration_order it \<and> set (d_modes d) \<inter> SUPPORTED_MODES = {}"
    then have "select_mode it (d_modes d) = None"
      by (simp add: iteration_order_def select_mode_None Int_commute)
    note raised = on_voice_ready_no_mode [OF this, of s disc]
    show "fst (on_voice_ready it s d disc) =
        Some (PyException ''Failed to find a supported voice mode'') \<and>
      state (snd (on_voice_ready it s d disc)) = CONNECTING \<and>
      voice_clients (snd (on_voice_ready it s d disc)) = voice_clients s"
      by (simp add: raised set_state_def do_effect_def)
  qed
  have empty: "(if is_dm s then Some (server_id s) else channel) \<in> {None, Some 0} \<longrightarrow>
      connect s channel mute deaf video =
        (Raised (VoiceException ''[{}] cannot connect to an empty channel id'' (server_id s)), s)"
    by (rule impI) (rule connect_empty_channel)
  show ?thesis
    by (rule conjI [OF budget conjI [OF no_mode empty]])
qed

lemma last_chance_session_registry:
  "voice_clients last_chance_session = {42}"
  "is_dm last_chance_session = False"
  by (simp_all add: last_chance_session_def method_defs heartbeat_body_def on_close_def
      hard_close_def on_voice_resumed_def)

theorem fatal_errors_witness:
  "state last_chance_session = CONNECTED \<and> budget_exceeded last_chance_session \<and>
   fst (on_close last_chance_session (Some 1006) None) =
     Some (VoiceException ''Failed to reconnect after {} attempts, giving up'' 42) \<and>
   iteration_order order0 \<and> set (d_modes ready_foreign_modes) \<inter> SUPPORTED_MODES = {} \<and>
   fst (on_voice_ready order0 last_chance_session ready_foreign_modes (None, None)) =
     Some (PyException ''Failed to find a supported voice mode'') \<and>
   connect last_chance_session (Some 0) False False False =
     (Raised (VoiceException ''[{}] cannot connect to an empty channel id'' 42),
      last_chance_session)"
proof -
  note w = fatal_errors [of last_chance_session "Some 1006" None order0 ready_foreign_modes
      "(None, None)" "Some 0" False False False]
  have over: "budget_exceeded last_chance_session"
    by (simp add: budget_exceeded_def last_chance_session_fields)
  have pre1: "state last_chance_session \<noteq> DISCONNECTED \<and> budget_exceeded last_chance_session"
    by (simp add: over last_chance_session_fields)
  have foreign: "set (d_modes ready_foreign_modes) \<inter> SUPPORTED_MODES = {}"
    by (simp add: ready_foreign_modes_def ready0_def SUPPORTED_MODES_def)
  have pre2: "iteration_order order0 \<and> set (d_modes ready_foreign_modes) \<inter> SUPPORTED_MODES = {}"
    by (rule conjI [OF iteration_order_order0 foreign])
  have pre3: "(if is_dm last_chance_session then Some (server_id last_chance_session)
      else Some 0) \<in> {None, Some 0}"
    by (simp add: last_chance_session_registry)
  from conjunct1 [OF mp [OF conjunct1 [OF w] pre1]]
  have raised1: "fst (on_close last_chance_session (Some 1006) None) =
      Some (VoiceException ''Failed to reconnect after {} attempts, giving up'' 42)"
    by (simp only: last_chance_session_fields)
  note raised2 = conjunct1 [OF mp [OF conjunct1 [OF conjunct2 [OF w]] pre2]]
  from mp [OF conjunct2 [OF conjunct2 [OF w]] pre3]
  have raised3: "connect last_chance_session (Some 0) False False False =
      (Raised (VoiceException ''[{}] cannot connect to an empty channel id'' 42),
       last_chance_session)"
    by (simp only: last_chance_session_fields)
  show ?thesis
    apply (intro conjI)
          apply (rule last_chance_session_fields(1))
         apply (rule over)
        apply (rule raised1)
       apply (rule iteration_order_order0)
      apply (rule foreign)
     apply (rule raised2)
    apply (rule raised3)
    done
qed

text \<open>
  The session that has used up its reconnect budget, at its next closure: the error
  is raised with the session in state \<open>RECONNECTING\<close> and still registered.  The same
  session at a \<open>READY\<close> without a supported mode: the error is a plain \<open>Exception\<close>, the
  state is \<open>CONNECTING\<close> and the session is still registered.
\<close>

theorem fatal_errors_counterexample:
  "fst (on_close last_chance_session (Some 1006) None) =
     Some (VoiceException ''Failed to reconnect after {} attempts, giving up'' 42) \<and>
   state (snd (on_close last_chance_session (Some 1006) None)) = RECONNECTING \<and>
   server_id last_chance_session \<in> voice_clients (snd (on_close last_chance_session (Some 1006) None)) \<and>
   fst (on_voice_ready order0 last_chance_session ready_foreign_modes (None, None)) =
     Some (PyException ''Failed to find a supported voice mode'') \<and>
   state (snd (on_voice_ready order0 last_chance_session ready_foreign_modes (None, None))) =
     CONNECTING \<and>
   server_id last_chance_session \<in>
     voice_clients (snd (on_voice_ready order0 last_chance_session ready_foreign_modes (None, None)))"
proof -
  have live: "state last_chance_session \<noteq> DISCONNECTED"
    by (simp add: last_chance_session_fields)
  have over: "budget_exceeded last_chance_session"
    by (simp add: budget_exceeded_def last_chance_session_fields)
  note closed = on_close_budget_exceeded [OF live over, of "Some 1006" None]
  have "select_mode order0 (d_modes ready_foreign_modes) = None"
    by (simp add: order0_def ready_foreign_modes_def ready0_def)
  note ready = on_voice_ready_no_mode [OF this, of last_chance_session "(None, None)"]
  have c1: "fst (on_close last_chance_session (Some 1006) None) =
      Some (VoiceException ''Failed to reconnect after {} attempts, giving up'' 42)"
    using closed(1) by (simp only: last_chance_session_fields)
  have c3: "server_id last_chance_session \<in>
      voice_clients (snd (on_close last_chance_session (Some 1006) None))"
    by (simp add: closed(3) last_chance_session_fields last_chance_session_registry)
  have r1: "fst (on_voice_ready order0 last_chance_session ready_foreign_modes (None, None)) =
      Some (PyException ''Failed to find a supported voice mode'')"
    by (simp add: ready)
  have r2: "state (snd (on_voice_ready order0 last_chance_session ready_foreign_modes
      (None, None))) = CONNECTING"
    by (simp add: ready set_state_def do_effect_def)
  have r3: "server_id last_chance_session \<in>
      voice_clients (snd (on_voice_ready order0 last_chance_session ready_foreign_modes
        (None, None)))"
    by (simp add: ready set_state_def do_effect_def last_chance_session_fields
        last_chance_session_registry)
  show ?thesis
    apply (intro conjI)
         apply (rule c1)
        apply (rule closed(2))
       apply (rule c3)
      apply (rule r1)
     apply (rule r2)
    apply (rule r3)
    done
qed

subsection \<open>The reconnect counter\<close>











end
